theory Spec2Isabelle
  imports Complex_Main
begin

section \<open>Ray tracing by relative aperture and field (rayoptics/raytr/trace.py)\<close>

text \<open>
  A shallow embedding of \<^verbatim>\<open>src/rayoptics/raytr/trace.py\<close>. Conventions:
  \<^item> Python floats and numpy \<^verbatim>\<open>float64\<close> values are real numbers: rounding is not
    modelled. Where the source divides numpy values, the quotient is an \<open>npfloat\<close>, so that
    a zero divisor gives \<open>NaN\<close> or an infinity as numpy does (with a warning, no exception).
    The Coddington recurrence is the exception: its arithmetic stays in the real numbers and
    a pass with a zero divisor stops with the outcome \<open>NotFinite\<close>.
  \<^item> An exception is a value of \<open>pyerr\<close>, returned as \<open>Inl\<close>; every \<^verbatim>\<open>raise\<close>,
    failed index and failed unpacking of the source is a branch of the model.
  \<^item> The collaborators that are not part of this file (the trace primitive
    \<^verbatim>\<open>rt.trace\<close>, the field and optical specification methods, the wave aberration
    functions, scipy's solvers) are the fields of the record \<open>externals\<close>: pure
    functions a theorem quantifies over.
  \<^item> Mutation of a \<^verbatim>\<open>Field\<close> object is explicit state passing: a function that is
    handed a field returns the field as it is after the call.
\<close>

subsection \<open>Numbers and vectors\<close>

datatype npfloat = Finite real | PosInf | NegInf | NaN

text \<open>numpy's \<^verbatim>\<open>a / b\<close> on float64 scalars (signed zeros are not modelled).\<close>

definition np_divide :: "real \<Rightarrow> real \<Rightarrow> npfloat" where
  "np_divide a b =
     (if b \<noteq> 0 then Finite (a / b)
      else if a = 0 then NaN
      else if 0 < a then PosInf else NegInf)"

fun np_negative :: "npfloat \<Rightarrow> npfloat" where
  "np_negative (Finite a) = Finite (- a)"
| "np_negative PosInf = NegInf"
| "np_negative NegInf = PosInf"
| "np_negative NaN = NaN"

text \<open>\<^verbatim>\<open>a * z\<close> for a numpy scalar \<open>a\<close> and a finite factor \<open>z\<close>.\<close>

fun np_multiply :: "npfloat \<Rightarrow> real \<Rightarrow> npfloat" where
  "np_multiply (Finite a) z = Finite (a * z)"
| "np_multiply PosInf z = (if 0 < z then PosInf else if z < 0 then NegInf else NaN)"
| "np_multiply NegInf z = (if 0 < z then NegInf else if z < 0 then PosInf else NaN)"
| "np_multiply NaN z = NaN"

text \<open>\<^verbatim>\<open>a < 0\<close>: every comparison with nan is false.\<close>

fun np_less_zero :: "npfloat \<Rightarrow> bool" where
  "np_less_zero (Finite a) = (a < 0)"
| "np_less_zero NegInf = True"
| "np_less_zero PosInf = False"
| "np_less_zero NaN = False"

type_synonym vec2 = "real \<times> real"
type_synonym vec3 = "real \<times> real \<times> real"
type_synonym npvec3 = "npfloat \<times> npfloat \<times> npfloat"

definition vsub :: "vec3 \<Rightarrow> vec3 \<Rightarrow> vec3" where
  "vsub a b = (case a of (a0, a1, a2) \<Rightarrow> case b of (b0, b1, b2) \<Rightarrow> (a0 - b0, a1 - b1, a2 - b2))"

definition dot :: "vec3 \<Rightarrow> vec3 \<Rightarrow> real" where
  "dot a b = (case a of (a0, a1, a2) \<Rightarrow> case b of (b0, b1, b2) \<Rightarrow> a0 * b0 + a1 * b1 + a2 * b2)"

definition cross :: "vec3 \<Rightarrow> vec3 \<Rightarrow> vec3" where
  "cross a b = (case a of (a0, a1, a2) \<Rightarrow> case b of (b0, b1, b2) \<Rightarrow>
     (a1 * b2 - a2 * b1, a2 * b0 - a0 * b2, a0 * b1 - a1 * b0))"

text \<open>\<^verbatim>\<open>numpy.linalg.norm\<close> of a 3-vector.\<close>

definition norm3 :: "vec3 \<Rightarrow> real" where
  "norm3 a = sqrt (dot a a)"

text \<open>
  The three lines \<^verbatim>\<open>dir0 = pt1 - pt0; length = norm(dir0); dir0 = dir0/length\<close>, which
  \<^verbatim>\<open>trace_base\<close> and the residual functions of \<^verbatim>\<open>iterate_ray\<close> share.
\<close>

definition unit_dir :: "vec3 \<Rightarrow> vec3 \<Rightarrow> npvec3" where
  "unit_dir pt1 pt0 =
     (let dir0 = vsub pt1 pt0; len = norm3 dir0
      in case dir0 of (a0, a1, a2) \<Rightarrow> (np_divide a0 len, np_divide a1 len, np_divide a2 len))"

definition npvec_negative :: "npvec3 \<Rightarrow> npvec3" where
  "npvec_negative v = (case v of (a0, a1, a2) \<Rightarrow> (np_negative a0, np_negative a1, np_negative a2))"

subsection \<open>Data model\<close>

text \<open>
  A ray segment is the list \<^verbatim>\<open>[pt, after_dir, after_dst, normal]\<close> of the docstring of
  \<^verbatim>\<open>trace\<close>; the index constants \<^verbatim>\<open>mc.p\<close> and \<^verbatim>\<open>mc.d\<close> of
  \<^verbatim>\<open>model_constants\<close> select its entries 0 and 1 (the named tuple \<^verbatim>\<open>RaySeg\<close>
  calls them \<^verbatim>\<open>p\<close> and \<^verbatim>\<open>d\<close>). A ray package is the triple
  \<^verbatim>\<open>(ray, op_delta, wvl)\<close>.
\<close>

record rayseg =
  inc_pt :: vec3
  after_dir :: vec3
  after_dst :: real
  normal :: vec3

type_synonym raypkg = "rayseg list \<times> real \<times> real"

text \<open>
  \<^verbatim>\<open>RaySeg(*rs)\<close> rebuilds a segment from its four entries, as a named tuple.
\<close>

definition RaySeg :: "rayseg \<Rightarrow> rayseg" where
  "RaySeg rs = \<lparr>inc_pt = inc_pt rs, after_dir = after_dir rs, after_dst = after_dst rs,
     normal = normal rs\<rparr>"

text \<open>
  The trace errors of \<^verbatim>\<open>traceerror\<close>: \<^verbatim>\<open>TraceMissedSurfaceError\<close> and
  \<^verbatim>\<open>TraceTIRError\<close> are subclasses of \<^verbatim>\<open>TraceError\<close> and carry the attribute
  \<^verbatim>\<open>surf\<close>; every trace error carries \<^verbatim>\<open>ray_pkg\<close>. The payload type is a
  parameter: the primitive raises errors that hold a ray package, and
  \<^verbatim>\<open>trace_safe\<close> can set the attribute to \<^verbatim>\<open>None\<close>.
\<close>

datatype 'pl trace_error =
    TraceMissedSurfaceError nat 'pl
  | TraceTIRError nat 'pl
  | TraceError 'pl

fun ray_pkg :: "'pl trace_error \<Rightarrow> 'pl" where
  "ray_pkg (TraceMissedSurfaceError surf pl) = pl"
| "ray_pkg (TraceTIRError surf pl) = pl"
| "ray_pkg (TraceError pl) = pl"

fun set_ray_pkg :: "'a trace_error \<Rightarrow> 'b \<Rightarrow> 'b trace_error" where
  "set_ray_pkg (TraceMissedSurfaceError surf _) pl = TraceMissedSurfaceError surf pl"
| "set_ray_pkg (TraceTIRError surf _) pl = TraceTIRError surf pl"
| "set_ray_pkg (TraceError _) pl = TraceError pl"

datatype pyerr =
    Trace "raypkg trace_error"
  | IndexError
  | TypeError
  | ValueError
  | ZeroDivisionError
  | AttributeError
  | UnboundLocalError
  | RuntimeError

text \<open>\<^verbatim>\<open>isinstance(e, TraceError)\<close>.\<close>

fun is_TraceError :: "pyerr \<Rightarrow> bool" where
  "is_TraceError (Trace e) = True"
| "is_TraceError _ = False"

type_synonym exp_seg = "vec3 \<times> vec3 \<times> real"
type_synonym chief_ray_pkg = "raypkg \<times> exp_seg"

text \<open>
  A \<^verbatim>\<open>Field\<close>: the attributes this file reads or writes. \<open>aim_pt = None\<close> stands for
  both a missing attribute and the value \<^verbatim>\<open>None\<close>. The type \<open>'rs\<close> is the reference
  sphere package, which only \<^verbatim>\<open>waveabr\<close> looks into.
\<close>

record 'rs field =
  fld_x :: real
  fld_y :: real
  aim_pt :: "vec2 option"
  chief_ray :: "chief_ray_pkg option"
  ref_sphere :: "'rs option"

record first_order_data =
  enp_radius :: real
  obj_dist :: real
  enp_dist :: real
  exp_dist :: real

record interface =
  optical_power :: real

type_synonym tfrm = "(vec3 \<times> vec3 \<times> vec3) \<times> vec3"

record sequential_model =
  z_dir :: "real list"
  ifcs :: "interface list"
  rndx :: "real list list"
  lcl_tfrms :: "tfrm list"
  stop_surface :: "nat option"
  central_wavelength :: real
  index_for_wavelength :: "real \<Rightarrow> nat"

record optical_model =
  seq_model :: sequential_model
  fod :: first_order_data
  pupil_rays :: "vec2 list"
  ray_labels :: "string list"

text \<open>
  Keyword arguments: the keys this file reads. A key that is absent is \<open>None\<close>.
\<close>

record kwargs =
  kw_apply_vignetting :: "bool option"
  kw_use_named_tuples :: "bool option"
  kw_check_apertures :: "bool option"
  kw_image_pt :: "vec3 option"

text \<open>A call that passes no keyword argument.\<close>

definition no_kwargs :: kwargs where
  "no_kwargs = \<lparr>kw_apply_vignetting = None, kw_use_named_tuples = None,
     kw_check_apertures = None, kw_image_pt = None\<rparr>"

text \<open>
  The value of the 1D residual \<^verbatim>\<open>y_ray - y_target\<close>: a scalar when \<^verbatim>\<open>y_ray\<close> is one,
  an array when \<^verbatim>\<open>y_ray\<close> is a numpy vector.
\<close>

datatype resid = Scalar real | Array vec3

record 'rs externals =
  rt_trace :: "kwargs \<Rightarrow> vec3 \<Rightarrow> npvec3 \<Rightarrow> real \<Rightarrow> raypkg trace_error + raypkg"
  obj_coords :: "'rs field \<Rightarrow> vec3"
  fld_apply_vignetting :: "'rs field \<Rightarrow> vec2 \<Rightarrow> vec2"
  newton :: "(real \<Rightarrow> pyerr + resid) \<Rightarrow> real \<Rightarrow> pyerr + real"
  fsolve :: "(vec2 \<Rightarrow> pyerr + vec2) \<Rightarrow> vec2 \<Rightarrow> real \<Rightarrow> pyerr + vec2"
  calculate_reference_sphere ::
    "optical_model \<Rightarrow> 'rs field \<Rightarrow> real \<Rightarrow> real option \<Rightarrow> chief_ray_pkg \<Rightarrow> vec2 option \<Rightarrow> 'rs"
  transfer_to_exit_pupil :: "interface \<Rightarrow> vec3 \<times> vec3 \<Rightarrow> real \<Rightarrow> exp_seg"
  wave_abr_full_calc ::
    "first_order_data \<Rightarrow> 'rs field \<Rightarrow> real \<Rightarrow> real option \<Rightarrow> raypkg \<Rightarrow> chief_ray_pkg \<Rightarrow> 'rs \<Rightarrow> real"

subsection \<open>\<^verbatim>\<open>trace_base\<close>\<close>

text \<open>The point \<^verbatim>\<open>pt1\<close> on the entrance pupil plane (lines 200 to 208).\<close>

definition trace_base_pt1 :: "'rs externals \<Rightarrow> optical_model \<Rightarrow> vec2 \<Rightarrow> 'rs field \<Rightarrow> kwargs \<Rightarrow> vec3" where
  "trace_base_pt1 ex om pupil fld kw =
     (let apply_vignetting = (case kw_apply_vignetting kw of None \<Rightarrow> True | Some b \<Rightarrow> b);
          vig_pupil = (if apply_vignetting then fld_apply_vignetting ex fld pupil else pupil);
          eprad = enp_radius (fod om);
          aim = (case aim_pt fld of None \<Rightarrow> (0, 0) | Some a \<Rightarrow> a)
      in (eprad * fst vig_pupil + fst aim, eprad * snd vig_pupil + snd aim,
          obj_dist (fod om) + enp_dist (fod om)))"

text \<open>
  The direction \<^verbatim>\<open>dir0\<close> as it is handed to \<^verbatim>\<open>rt.trace\<close> (lines 209 to 217), for the
  first entry \<open>z0\<close> of \<^verbatim>\<open>sm.z_dir\<close>.
\<close>

definition trace_base_dir0 :: "'rs externals \<Rightarrow> optical_model \<Rightarrow> vec2 \<Rightarrow> 'rs field \<Rightarrow> kwargs \<Rightarrow> real \<Rightarrow> npvec3" where
  "trace_base_dir0 ex om pupil fld kw z0 =
     (let pt1 = trace_base_pt1 ex om pupil fld kw;
          pt0 = obj_coords ex fld;
          dir0 = unit_dir pt1 pt0
      in if np_less_zero (np_multiply (snd (snd dir0)) z0) then npvec_negative dir0 else dir0)"

definition trace_base :: "'rs externals \<Rightarrow> optical_model \<Rightarrow> vec2 \<Rightarrow> 'rs field \<Rightarrow> real \<Rightarrow> kwargs \<Rightarrow> pyerr + raypkg" where
  "trace_base ex om pupil fld wvl kw =
     (case z_dir (seq_model om) of
        [] \<Rightarrow> Inl IndexError
      | z0 # _ \<Rightarrow>
          (case rt_trace ex (kw\<lparr>kw_apply_vignetting := None\<rparr>) (obj_coords ex fld)
                  (trace_base_dir0 ex om pupil fld kw z0) wvl of
             Inl e \<Rightarrow> Inl (Trace e)
           | Inr pkg \<Rightarrow> Inr pkg))"

subsection \<open>\<^verbatim>\<open>iterate_ray\<close>\<close>

text \<open>\<^verbatim>\<open>xs[i]\<close> for a list or tuple and an index that is not negative.\<close>

definition py_index :: "'a list \<Rightarrow> nat \<Rightarrow> pyerr + 'a" where
  "py_index xs i = (if i < length xs then Inr (xs ! i) else Inl IndexError)"

text \<open>
  \<^verbatim>\<open>y_ray = ray[ifcx][mc.p][1]; return y_ray - y_target\<close> where \<^verbatim>\<open>ray\<close> is the list
  of segments that the successful trace returned.
\<close>

definition y_residual :: "rayseg list \<Rightarrow> nat \<Rightarrow> real \<Rightarrow> pyerr + resid" where
  "y_residual ray ifcx y_target =
     (case py_index ray ifcx of
        Inl e \<Rightarrow> Inl e
      | Inr seg \<Rightarrow> (case inc_pt seg of (px, py, pz) \<Rightarrow> Inr (Scalar (py - y_target))))"

text \<open>
  The same two lines after \<^verbatim>\<open>ray = ray_miss.ray_pkg\<close> (or \<^verbatim>\<open>ray_tir.ray_pkg\<close>). The
  attribute is the triple \<^verbatim>\<open>(ray, op_delta, wvl)\<close>, as \<^verbatim>\<open>trace_safe\<close> and
  \<^verbatim>\<open>trace_boundary_rays_at_field\<close> unpack it, and it is bound to \<^verbatim>\<open>ray\<close> whole. So
  \<^verbatim>\<open>ray[ifcx]\<close> indexes the triple: index 0 is the list of segments, whose entry
  \<^verbatim>\<open>mc.p = 0\<close> is the first segment, whose entry 1 is the vector \<^verbatim>\<open>after_dir\<close>;
  indices 1 and 2 are numbers, which cannot be subscripted (a \<^verbatim>\<open>TypeError\<close> for a Python
  float; numpy scalars raise \<^verbatim>\<open>IndexError\<close> there); an index from 3 on is out of range.
\<close>

definition y_residual_of_pkg :: "raypkg \<Rightarrow> nat \<Rightarrow> real \<Rightarrow> pyerr + resid" where
  "y_residual_of_pkg pkg ifcx y_target =
     (case pkg of (ray, op_delta, wvl) \<Rightarrow>
        if ifcx = 0 then
          (case py_index ray 0 of
             Inl e \<Rightarrow> Inl e
           | Inr seg \<Rightarrow> (case after_dir seg of (d0, d1, d2) \<Rightarrow>
               Inr (Array (d0 - y_target, d1 - y_target, d2 - y_target))))
        else if ifcx < 3 then Inl TypeError
        else Inl IndexError)"

definition y_stop_coordinate ::
  "'rs externals \<Rightarrow> real \<Rightarrow> nat \<Rightarrow> vec3 \<Rightarrow> real \<Rightarrow> real \<Rightarrow> real \<Rightarrow> pyerr + resid" where
  "y_stop_coordinate ex y1 ifcx pt0 dist0 wvl y_target =
     (let pt1 = (0, y1, dist0);
          dir0 = unit_dir pt1 pt0
      in case rt_trace ex no_kwargs pt0 dir0 wvl of
           Inr (ray, op_delta, w) \<Rightarrow> y_residual ray ifcx y_target
         | Inl (TraceMissedSurfaceError surf pkg) \<Rightarrow>
             if surf \<le> ifcx then Inl (Trace (TraceMissedSurfaceError surf pkg))
             else y_residual_of_pkg pkg ifcx y_target
         | Inl (TraceTIRError surf pkg) \<Rightarrow>
             if surf < ifcx then Inl (Trace (TraceTIRError surf pkg))
             else y_residual_of_pkg pkg ifcx y_target
         | Inl (TraceError pkg) \<Rightarrow> Inl (Trace (TraceError pkg)))"

definition surface_coordinate ::
  "'rs externals \<Rightarrow> vec2 \<Rightarrow> nat \<Rightarrow> vec3 \<Rightarrow> real \<Rightarrow> real \<Rightarrow> vec2 \<Rightarrow> pyerr + vec2" where
  "surface_coordinate ex coord ifcx pt0 dist0 wvl target =
     (let pt1 = (fst coord, snd coord, dist0);
          dir0 = unit_dir pt1 pt0
      in case rt_trace ex no_kwargs pt0 dir0 wvl of
           Inl e \<Rightarrow> Inl (Trace e)
         | Inr (ray, op_delta, w) \<Rightarrow>
             (case py_index ray ifcx of
                Inl e \<Rightarrow> Inl e
              | Inr seg \<Rightarrow> (case inc_pt seg of (px, py, pz) \<Rightarrow>
                  Inr (px - fst target, py - snd target))))"

text \<open>
  The solvers are collaborators: \<open>newton ex f x0\<close> is the root \<^verbatim>\<open>start_y\<close> that
  \<^verbatim>\<open>scipy.optimize.newton\<close> returns for the residual \<open>f\<close>, or the exception that leaves
  it. After \<^verbatim>\<open>except RuntimeError\<close> the handler reads \<^verbatim>\<open>results\<close>, which the failed
  assignment never bound.
\<close>

definition iterate_ray ::
  "'rs externals \<Rightarrow> optical_model \<Rightarrow> nat option \<Rightarrow> vec2 \<Rightarrow> 'rs field \<Rightarrow> real \<Rightarrow> pyerr + vec2" where
  "iterate_ray ex om ifcx xy_target fld wvl =
     (let dist0 = obj_dist (fod om) + enp_dist (fod om);
          pt0 = obj_coords ex fld
      in case ifcx of
           None \<Rightarrow> Inr (0 + fst xy_target, 0 + snd xy_target)
         | Some i \<Rightarrow>
             if fst pt0 = 0 \<and> fst xy_target = 0 then
               (let y_target = snd xy_target
                in case newton ex (\<lambda>y1. y_stop_coordinate ex y1 i pt0 dist0 wvl y_target) 0 of
                     Inr start_y \<Rightarrow> Inr (0, start_y)
                   | Inl e \<Rightarrow>
                       if e = RuntimeError then Inl UnboundLocalError
                       else if is_TraceError e then Inr (0, 0)
                       else Inl e)
             else
               (case fsolve ex (\<lambda>coord. surface_coordinate ex coord i pt0 dist0 wvl xy_target)
                       (0, 0) (0.0001 * enp_radius (fod om)) of
                  Inr start_coords \<Rightarrow> Inr start_coords
                | Inl e \<Rightarrow> if is_TraceError e then Inr (0, 0) else Inl e))"

definition aim_chief_ray ::
  "'rs externals \<Rightarrow> optical_model \<Rightarrow> 'rs field \<Rightarrow> real option \<Rightarrow> pyerr + vec2" where
  "aim_chief_ray ex om fld wvl =
     (let w = (case wvl of None \<Rightarrow> central_wavelength (seq_model om) | Some v \<Rightarrow> v);
          stop = stop_surface (seq_model om)
      in iterate_ray ex om stop (0, 0) fld w)"

subsection \<open>\<^verbatim>\<open>trace_safe\<close>\<close>

text \<open>
  The two filter arguments. \<^verbatim>\<open>output_filter\<close> is \<^verbatim>\<open>None\<close>, a string or a callable
  (which may itself return \<^verbatim>\<open>None\<close>); \<^verbatim>\<open>rayerr_filter\<close> is \<^verbatim>\<open>None\<close> or a string.
\<close>

datatype 'r output_filter = OF_None | OF_Str string | OF_Callable "raypkg \<Rightarrow> 'r option"

datatype rayerr_filter = RF_None | RF_Str string

text \<open>
  What \<^verbatim>\<open>trace_safe\<close> returns when it does not return \<^verbatim>\<open>None\<close>: the ray package, the
  triple \<^verbatim>\<open>(ray[-1], op_delta, wvl)\<close>, the value of the callable, or the exception object
  with its \<^verbatim>\<open>ray_pkg\<close> attribute as the handler left it.
\<close>

datatype 'r ray_result =
    Package raypkg
  | FinalSeg rayseg real real
  | Filtered 'r
  | RayErr "raypkg option trace_error"

text \<open>
  \<^verbatim>\<open>ray, op_delta, wvl = ray_pkg; ray = [RaySeg(*rs) for rs in ray];
  RayPkg(ray, op_delta, wvl)\<close>.
\<close>

definition named_tuples :: "raypkg \<Rightarrow> raypkg" where
  "named_tuples pkg = (case pkg of (ray, op_delta, wvl) \<Rightarrow> (map RaySeg ray, op_delta, wvl))"

text \<open>
  A string other than \<^verbatim>\<open>'last'\<close> as \<^verbatim>\<open>output_filter\<close> reaches the call
  \<^verbatim>\<open>output_filter(ray_pkg)\<close>, and a string is not callable; \<^verbatim>\<open>ray[-1]\<close> of an empty
  list is an \<^verbatim>\<open>IndexError\<close>. Only a \<^verbatim>\<open>TraceError\<close> is caught.
\<close>

definition trace_safe ::
  "'rs externals \<Rightarrow> optical_model \<Rightarrow> vec2 \<Rightarrow> 'rs field \<Rightarrow> real \<Rightarrow> 'r output_filter \<Rightarrow> rayerr_filter
     \<Rightarrow> kwargs \<Rightarrow> pyerr + 'r ray_result option" where
  "trace_safe ex om pupil fld wvl output_filter rayerr_filter kw =
     (let use_named_tuples = (case kw_use_named_tuples kw of None \<Rightarrow> False | Some b \<Rightarrow> b)
      in case trace_base ex om pupil fld wvl kw of
           Inl err \<Rightarrow>
             (case err of
                Trace rayerr \<Rightarrow>
                  (case rayerr_filter of
                     RF_None \<Rightarrow> Inr None
                   | RF_Str s \<Rightarrow>
                       if s = ''full'' then
                         Inr (Some (RayErr (set_ray_pkg rayerr (Some (named_tuples (ray_pkg rayerr))))))
                       else if s = ''summary'' then
                         Inr (Some (RayErr (set_ray_pkg rayerr None)))
                       else Inr None)
              | _ \<Rightarrow> Inl err)
         | Inr pkg0 \<Rightarrow>
             (let pkg = (if use_named_tuples then named_tuples pkg0 else pkg0)
              in case output_filter of
                   OF_None \<Rightarrow> Inr (Some (Package pkg))
                 | OF_Str s \<Rightarrow>
                     if s = ''last'' then
                       (case pkg of (ray, op_delta, w) \<Rightarrow>
                          if ray = [] then Inl IndexError
                          else Inr (Some (FinalSeg (last ray) op_delta w)))
                     else Inl TypeError
                 | OF_Callable f \<Rightarrow> Inr (map_option Filtered (f pkg))))"

subsection \<open>\<^verbatim>\<open>intersect_2_lines\<close>\<close>

text \<open>
  Both operands of the division are numpy scalars (values of \<^verbatim>\<open>np.dot\<close>), so a zero
  divisor raises nothing: the function always returns.
\<close>

definition intersect_2_lines :: "vec3 \<Rightarrow> vec3 \<Rightarrow> vec3 \<Rightarrow> vec3 \<Rightarrow> pyerr + npfloat" where
  "intersect_2_lines P1 V1 P2 V2 =
     (let Vx = cross V1 V2;
          s = np_divide (dot (cross (vsub P2 P1) V1) Vx) (dot Vx Vx)
      in Inr s)"

definition vadd_scaled :: "vec3 \<Rightarrow> real \<Rightarrow> vec3 \<Rightarrow> vec3" where
  "vadd_scaled P s V = (case P of (p0, p1, p2) \<Rightarrow> case V of (v0, v1, v2) \<Rightarrow>
     (p0 + s * v0, p1 + s * v1, p2 + s * v2))"

subsection \<open>The batch engines\<close>














subsection \<open>The chief ray and the pupil setup\<close>

text \<open>\<^verbatim>\<open>xs[-2]\<close>.\<close>

definition py_index_m2 :: "'a list \<Rightarrow> pyerr + 'a" where
  "py_index_m2 xs = (if length xs < 2 then Inl IndexError else Inr (xs ! (length xs - 2)))"

text \<open>
  \<^verbatim>\<open>trace_chief_ray\<close> holds no assignment to the field and hands it to
  \<^verbatim>\<open>trace_base\<close> only, so it returns no field. The argument \<^verbatim>\<open>foc\<close> is not used.
\<close>

definition trace_chief_ray ::
  "'rs externals \<Rightarrow> optical_model \<Rightarrow> 'rs field \<Rightarrow> real \<Rightarrow> real option \<Rightarrow> pyerr + chief_ray_pkg" where
  "trace_chief_ray ex om fld wvl foc =
     (case trace_base ex om (0, 0) fld wvl no_kwargs of
        Inl e \<Rightarrow> Inl e
      | Inr (ray, op, w) \<Rightarrow>
          (let cr = (ray, op, w)
           in case py_index_m2 (ifcs (seq_model om)) of
                Inl e \<Rightarrow> Inl e
              | Inr ifc \<Rightarrow>
                  (case py_index_m2 ray of
                     Inl e \<Rightarrow> Inl e
                   | Inr seg \<Rightarrow>
                       Inr (cr, transfer_to_exit_pupil ex ifc (inc_pt seg, after_dir seg)
                                  (exp_dist (fod om))))))"

text \<open>
  \<^verbatim>\<open>get_chief_ray_pkg\<close>, with the field as it is after the call. The value of
  \<^verbatim>\<open>aim_chief_ray\<close> is dropped; an exception of it propagates.
\<close>

definition get_chief_ray_pkg ::
  "'rs externals \<Rightarrow> optical_model \<Rightarrow> 'rs field \<Rightarrow> real \<Rightarrow> real option
     \<Rightarrow> (pyerr + chief_ray_pkg) \<times> 'rs field" where
  "get_chief_ray_pkg ex om fld wvl foc =
     (case chief_ray fld of
        None \<Rightarrow>
          (case aim_chief_ray ex om fld (Some wvl) of
             Inl e \<Rightarrow> (Inl e, fld)
           | Inr aim \<Rightarrow> (trace_chief_ray ex om fld wvl foc, fld))
      | Some cr \<Rightarrow>
          if snd (snd (fst cr)) \<noteq> wvl then (trace_chief_ray ex om fld wvl foc, fld)
          else (Inr cr, fld))"

definition setup_pupil_coords ::
  "'rs externals \<Rightarrow> optical_model \<Rightarrow> 'rs field \<Rightarrow> real \<Rightarrow> real option \<Rightarrow> vec3 option
     \<Rightarrow> (pyerr + 'rs \<times> chief_ray_pkg) \<times> 'rs field" where
  "setup_pupil_coords ex om fld wvl foc image_pt =
     (case get_chief_ray_pkg ex om fld wvl foc of
        (Inl e, fld1) \<Rightarrow> (Inl e, fld1)
      | (Inr chief_ray_pkg, fld1) \<Rightarrow>
          (let image_pt_2d = (case image_pt of None \<Rightarrow> None | Some (x, y, z) \<Rightarrow> Some (x, y));
               ref_sph = calculate_reference_sphere ex om fld1 wvl foc chief_ray_pkg image_pt_2d
           in (Inr (ref_sph, chief_ray_pkg), fld1)))"

text \<open>
  \<^verbatim>\<open>trace_with_opd\<close>. The two assignments to the field come after the trace of the ray:
  when that trace raises, the field is as before. The wavelength handed to
  \<^verbatim>\<open>wave_abr_full_calc\<close> is the one unpacked from the ray package.
\<close>

definition trace_with_opd ::
  "'rs externals \<Rightarrow> optical_model \<Rightarrow> vec2 \<Rightarrow> 'rs field \<Rightarrow> real \<Rightarrow> real option \<Rightarrow> kwargs
     \<Rightarrow> (pyerr + rayseg list \<times> real \<times> real \<times> real) \<times> 'rs field" where
  "trace_with_opd ex om pupil fld wvl foc kw =
     (case get_chief_ray_pkg ex om fld wvl foc of
        (Inl e, fld1) \<Rightarrow> (Inl e, fld1)
      | (Inr chief_ray_pkg, fld1) \<Rightarrow>
          (let image_pt_2d = (case kw_image_pt kw of None \<Rightarrow> None | Some (x, y, z) \<Rightarrow> Some (x, y));
               ref_sph = calculate_reference_sphere ex om fld1 wvl foc chief_ray_pkg image_pt_2d
           in case trace_base ex om pupil fld1 wvl kw of
                Inl e \<Rightarrow> (Inl e, fld1)
              | Inr (ray, op, w) \<Rightarrow>
                  (let fld2 = fld1\<lparr>chief_ray := Some chief_ray_pkg, ref_sphere := Some ref_sph\<rparr>;
                       opd = wave_abr_full_calc ex (fod om) fld2 w foc (ray, op, w) chief_ray_pkg ref_sph
                   in (Inr (ray, op, w, opd), fld2))))"

subsection \<open>\<^verbatim>\<open>trace_coddington_fan\<close>\<close>

text \<open>
  The recurrence is modelled in real arithmetic. A run stops with \<open>Raised e\<close> where Python
  raises \<open>e\<close>, and with \<open>NotFinite\<close> at a quotient whose divisor is zero: there Python
  floats raise \<^verbatim>\<open>ZeroDivisionError\<close> and numpy scalars go on with inf or nan, values that
  the real numbers do not have. \<^verbatim>\<open>math.sqrt\<close> of a negative number raises
  \<^verbatim>\<open>ValueError\<close>.
\<close>

datatype cod_stop = Raised pyerr | NotFinite

definition bind_stop :: "cod_stop + 'a \<Rightarrow> ('a \<Rightarrow> cod_stop + 'b) \<Rightarrow> cod_stop + 'b" where
  "bind_stop m f = (case m of Inl e \<Rightarrow> Inl e | Inr a \<Rightarrow> f a)"

definition quotient :: "real \<Rightarrow> real \<Rightarrow> cod_stop + real" where
  "quotient a b = (if b = 0 then Inl NotFinite else Inr (a / b))"

definition math_sqrt :: "real \<Rightarrow> cod_stop + real" where
  "math_sqrt a = (if a < 0 then Inl (Raised ValueError) else Inr (sqrt a))"

text \<open>
  Lines 583 to 587: \<^verbatim>\<open>cosI_prime\<close> and \<^verbatim>\<open>cosI\<close> from the direction after the
  interface, the normal and the two indices.
\<close>

definition cod_cosines :: "vec3 \<Rightarrow> vec3 \<Rightarrow> real \<Rightarrow> real \<Rightarrow> cod_stop + real \<times> real" where
  "cod_cosines after_dir0 normal0 after_rind before_rind =
     (let normal_len = norm3 normal0
      in bind_stop (quotient (dot after_dir0 normal0) normal_len) (\<lambda>cosI_prime.
         bind_stop (math_sqrt (1 - cosI_prime\<^sup>2)) (\<lambda>sinI_prime.
         bind_stop (quotient (after_rind * sinI_prime) before_rind) (\<lambda>sinI.
         bind_stop (math_sqrt (1 - sinI\<^sup>2)) (\<lambda>cosI.
         Inr (cosI_prime, cosI))))))"

text \<open>Lines 589 to 592: \<^verbatim>\<open>obl_power\<close>; an interface that is \<^verbatim>\<open>None\<close> has no attribute.\<close>

definition cod_obl_power :: "interface option \<Rightarrow> real \<Rightarrow> real \<Rightarrow> real \<Rightarrow> real \<Rightarrow> cod_stop + real" where
  "cod_obl_power ifc after_rind before_rind cosI_prime cosI =
     (case ifc of
        None \<Rightarrow> Inl (Raised AttributeError)
      | Some i \<Rightarrow>
          (let obl_power = optical_power i
           in if obl_power \<noteq> 0 then
                bind_stop (quotient (after_rind * cosI_prime - before_rind * cosI)
                                    (after_rind - before_rind)) (\<lambda>q.
                Inr (obl_power * q))
              else Inr obl_power))"

text \<open>
  The variables that the loop carries. \<^verbatim>\<open>before_dir\<close>, \<^verbatim>\<open>s_before\<close> and
  \<^verbatim>\<open>t_before\<close> are \<^verbatim>\<open>None\<close> together, until the first pass: they are the one field
  \<open>cs_before\<close>. \<open>cs_prime\<close> is \<open>None\<close> while \<^verbatim>\<open>s_prime\<close> and \<^verbatim>\<open>t_prime\<close> are
  unbound, \<open>cs_last\<close> holds \<^verbatim>\<open>pt\<close> and \<^verbatim>\<open>after_dir\<close> of the last pass.
\<close>

record cod_state =
  cs_before_rind :: real
  cs_before :: "(vec3 \<times> real \<times> real) option"
  cs_prime :: "(real \<times> real) option"
  cs_last :: "(vec3 \<times> vec3) option"

type_synonym cod_item = "rayseg option \<times> interface option \<times> real option \<times> tfrm option \<times> real option"

text \<open>One pass of the loop (lines 580 to 614).\<close>

definition coddington_step :: "cod_state \<Rightarrow> cod_item \<Rightarrow> cod_stop + cod_state" where
  "coddington_step st item =
     (case item of (r, ifc, after_rind_opt, tfrm0, z_dir0) \<Rightarrow>
        let before_rind = cs_before_rind st;
            after_rind = (case after_rind_opt of Some n \<Rightarrow> n | None \<Rightarrow> before_rind)
        in case r of
             None \<Rightarrow> Inl (Raised TypeError)
           | Some seg \<Rightarrow>
               (case cs_before st of
                  Some (before_dir, s_before, t_before) \<Rightarrow>
                    bind_stop (cod_cosines (after_dir seg) (normal seg) after_rind before_rind)
                      (\<lambda>(cosI_prime, cosI).
                    bind_stop (cod_obl_power ifc after_rind before_rind cosI_prime cosI) (\<lambda>obl_power.
                    bind_stop (quotient before_rind s_before) (\<lambda>q1.
                    let n_by_s_prime = q1 + obl_power in
                    bind_stop (quotient after_rind n_by_s_prime) (\<lambda>s_prime.
                    bind_stop (quotient (before_rind * cosI\<^sup>2) t_before) (\<lambda>q2.
                    let n_cosIp2_by_t_prime = q2 + obl_power in
                    bind_stop (quotient (after_rind * cosI_prime\<^sup>2) n_cosIp2_by_t_prime) (\<lambda>t_prime.
                    Inr \<lparr>cs_before_rind = after_rind,
                         cs_before = Some (after_dir seg, s_prime - after_dst seg, t_prime - after_dst seg),
                         cs_prime = Some (s_prime, t_prime),
                         cs_last = Some (inc_pt seg, after_dir seg)\<rparr>))))))
                | None \<Rightarrow>
                    Inr \<lparr>cs_before_rind = after_rind,
                         cs_before = Some (after_dir seg, - after_dst seg, - after_dst seg),
                         cs_prime = cs_prime st,
                         cs_last = Some (inc_pt seg, after_dir seg)\<rparr>))"

fun coddington_loop :: "cod_state \<Rightarrow> cod_item list \<Rightarrow> cod_stop + cod_state" where
  "coddington_loop st [] = Inr st"
| "coddington_loop st (item # items) =
     (case coddington_step st item of
        Inl e \<Rightarrow> Inl e
      | Inr st' \<Rightarrow> coddington_loop st' items)"

text \<open>\<^verbatim>\<open>itertools.zip_longest\<close> of five lists, filling with \<^verbatim>\<open>None\<close>.\<close>

definition nth_opt :: "'a list \<Rightarrow> nat \<Rightarrow> 'a option" where
  "nth_opt xs i = (if i < length xs then Some (xs ! i) else None)"

definition zip_longest5 ::
  "'a list \<Rightarrow> 'b list \<Rightarrow> 'c list \<Rightarrow> 'd list \<Rightarrow> 'e list
     \<Rightarrow> ('a option \<times> 'b option \<times> 'c option \<times> 'd option \<times> 'e option) list" where
  "zip_longest5 as bs cs ds es =
     map (\<lambda>i. (nth_opt as i, nth_opt bs i, nth_opt cs i, nth_opt ds i, nth_opt es i))
       [0 ..< max (length as) (max (length bs) (max (length cs) (max (length ds) (length es))))]"

text \<open>\<^verbatim>\<open>[n[wl] for n in seq_model.rndx]\<close>.\<close>

fun index_all :: "real list list \<Rightarrow> nat \<Rightarrow> pyerr + real list" where
  "index_all [] wl = Inr []"
| "index_all (n # ns) wl =
     (case py_index n wl of
        Inl e \<Rightarrow> Inl e
      | Inr v \<Rightarrow> (case index_all ns wl of Inl e \<Rightarrow> Inl e | Inr vs \<Rightarrow> Inr (v # vs)))"

definition trace_coddington_fan :: "optical_model \<Rightarrow> raypkg \<Rightarrow> real option \<Rightarrow> cod_stop + real \<times> real" where
  "trace_coddington_fan om pkg foc =
     (case pkg of (ray, op, wvl) \<Rightarrow>
        let sm = seq_model om;
            wl = index_for_wavelength sm wvl
        in case index_all (rndx sm) wl of
             Inl e \<Rightarrow> Inl (Raised e)
           | Inr ns \<Rightarrow>
               (let path = zip_longest5 ray (ifcs sm) ns (lcl_tfrms sm) (z_dir sm)
                in case ns of
                     [] \<Rightarrow> Inl (Raised IndexError)
                   | n0 # _ \<Rightarrow>
                       (case coddington_loop
                               \<lparr>cs_before_rind = n0, cs_before = None, cs_prime = None, cs_last = None\<rparr>
                               path of
                          Inl e \<Rightarrow> Inl e
                        | Inr st \<Rightarrow>
                            (case cs_prime st of
                               None \<Rightarrow> Inl (Raised UnboundLocalError)
                             | Some (s_prime, t_prime) \<Rightarrow>
                                 (case cs_last st of
                                    None \<Rightarrow> Inl (Raised UnboundLocalError)
                                  | Some (pt, after_dir0) \<Rightarrow>
                                      (let s_dfoc = s_prime * snd (snd after_dir0) + snd (snd pt);
                                           t_dfoc = t_prime * snd (snd after_dir0) + snd (snd pt)
                                       in case foc of
                                            Some focus_shift \<Rightarrow>
                                              Inr (s_dfoc - focus_shift, t_dfoc - focus_shift)
                                          | None \<Rightarrow> Inr (s_dfoc, t_dfoc)))))))"

subsection \<open>Sample inputs\<close>

text \<open>
  Concrete collaborators, models and fields at which the hypotheses of the theorems
  below are discharged and at which the source is evaluated.
\<close>

definition demo_externals ::
  "(kwargs \<Rightarrow> vec3 \<Rightarrow> npvec3 \<Rightarrow> real \<Rightarrow> raypkg trace_error + raypkg) \<Rightarrow> unit externals" where
  "demo_externals rt =
     \<lparr>rt_trace = rt,
      obj_coords = (\<lambda>fld. (fld_x fld, fld_y fld, 0)),
      fld_apply_vignetting = (\<lambda>fld pupil. pupil),
      newton = (\<lambda>f x0. case f x0 of Inl e \<Rightarrow> Inl e | Inr r \<Rightarrow> Inr x0),
      fsolve = (\<lambda>f x0 eps. case f x0 of Inl e \<Rightarrow> Inl e | Inr r \<Rightarrow> Inr x0),
      calculate_reference_sphere = (\<lambda>om fld wvl foc cr img. ()),
      transfer_to_exit_pupil = (\<lambda>ifc pd dist. (fst pd, snd pd, dist)),
      wave_abr_full_calc = (\<lambda>fod fld wvl foc pkg cr rs. 0)\<rparr>"

definition demo_field :: "real \<Rightarrow> real \<Rightarrow> unit field" where
  "demo_field fx fy = \<lparr>fld_x = fx, fld_y = fy, aim_pt = None, chief_ray = None, ref_sphere = None\<rparr>"

definition demo_seq_model :: sequential_model where
  "demo_seq_model =
     \<lparr>z_dir = [1, 1], ifcs = [\<lparr>optical_power = 0\<rparr>, \<lparr>optical_power = 1 / 50\<rparr>, \<lparr>optical_power = 0\<rparr>],
      rndx = [[1], [3 / 2], [3 / 2]], lcl_tfrms = [], stop_surface = Some 1,
      central_wavelength = 550, index_for_wavelength = (\<lambda>w. 0)\<rparr>"

definition demo_model :: "real \<Rightarrow> real \<Rightarrow> optical_model" where
  "demo_model od ed =
     \<lparr>seq_model = demo_seq_model,
      fod = \<lparr>enp_radius = 1, obj_dist = od, enp_dist = ed, exp_dist = 0\<rparr>,
      pupil_rays = [(0, 0), (1, 0), (-1, 0), (0, 1), (0, -1)],
      ray_labels = [''00'', ''+X'', ''-X'', ''+Y'', ''-Y'']\<rparr>"

definition demo_trace_ok :: "kwargs \<Rightarrow> vec3 \<Rightarrow> npvec3 \<Rightarrow> real \<Rightarrow> raypkg trace_error + raypkg" where
  "demo_trace_ok kw pt0 dir0 wvl =
     Inr ([\<lparr>inc_pt = pt0, after_dir = (0, 0, 1), after_dst = 1, normal = (0, 0, 1)\<rparr>], 0, wvl)"

definition demo_partial_pkg :: raypkg where
  "demo_partial_pkg =
     ([\<lparr>inc_pt = (0, 0, 0), after_dir = (0, 0, 1), after_dst = 100, normal = (0, 0, 1)\<rparr>,
       \<lparr>inc_pt = (0, 2, 0), after_dir = (0, 3 / 5, 4 / 5), after_dst = 5, normal = (0, 0, 1)\<rparr>], 0, 550)"

definition demo_trace_miss :: "nat \<Rightarrow> kwargs \<Rightarrow> vec3 \<Rightarrow> npvec3 \<Rightarrow> real \<Rightarrow> raypkg trace_error + raypkg" where
  "demo_trace_miss surf kw pt0 dir0 wvl = Inl (TraceMissedSurfaceError surf demo_partial_pkg)"

definition demo_trace_tir :: "nat \<Rightarrow> kwargs \<Rightarrow> vec3 \<Rightarrow> npvec3 \<Rightarrow> real \<Rightarrow> raypkg trace_error + raypkg" where
  "demo_trace_tir surf kw pt0 dir0 wvl = Inl (TraceTIRError surf demo_partial_pkg)"


text \<open>A primitive that traces every ray through the three interfaces of the sample model.\<close>

definition demo_through_ray :: "vec3 \<Rightarrow> rayseg list" where
  "demo_through_ray pt0 =
     [\<lparr>inc_pt = pt0, after_dir = (0, 0, 1), after_dst = 100, normal = (0, 0, 1)\<rparr>,
      \<lparr>inc_pt = (0, 0, 0), after_dir = (0, 0, 1), after_dst = 50, normal = (0, 0, 1)\<rparr>,
      \<lparr>inc_pt = (0, 0, 0), after_dir = (0, 0, 1), after_dst = 0, normal = (0, 0, 1)\<rparr>]"

definition demo_trace_through :: "kwargs \<Rightarrow> vec3 \<Rightarrow> npvec3 \<Rightarrow> real \<Rightarrow> raypkg trace_error + raypkg" where
  "demo_trace_through kw pt0 dir0 wvl = Inr (demo_through_ray pt0, 0, wvl)"


definition demo_cod_seg :: "real \<Rightarrow> rayseg" where
  "demo_cod_seg d = \<lparr>inc_pt = (0, 0, 0), after_dir = (0, 0, 1), after_dst = d, normal = (0, 0, 1)\<rparr>"



section \<open>Properties\<close>

lemma norm3_pos: "a \<noteq> (0, 0, 0) \<Longrightarrow> 0 < norm3 a"
proof -
  assume h: "a \<noteq> (0, 0, 0)"
  obtain a0 a1 a2 where a: "a = (a0, a1, a2)" by (cases a) auto
  from h a have "a0 \<noteq> 0 \<or> a1 \<noteq> 0 \<or> a2 \<noteq> 0" by simp
  then have "0 < a0 * a0 + a1 * a1 + a2 * a2"
    by (metis add_pos_nonneg add_nonneg_pos not_real_square_gt_zero zero_le_square add_nonneg_nonneg)
  then show ?thesis by (simp add: norm3_def dot_def a)
qed

lemma vsub_zero_iff: "vsub a b = (0, 0, 0) \<longleftrightarrow> a = b"
  by (cases a; cases b) (auto simp: vsub_def)

lemma unit_dir_finite:
  assumes "pt1 \<noteq> pt0"
  shows "\<exists>ux uy uz. unit_dir pt1 pt0 = (Finite ux, Finite uy, Finite uz) \<and> ux\<^sup>2 + uy\<^sup>2 + uz\<^sup>2 = 1"
proof -
  obtain a0 a1 a2 where a: "vsub pt1 pt0 = (a0, a1, a2)" by (cases "vsub pt1 pt0") auto
  define len where "len = norm3 (a0, a1, a2)"
  have nz: "(a0, a1, a2) \<noteq> (0, 0, 0)" using assms vsub_zero_iff[of pt1 pt0] a by auto
  have pos: "0 < len" unfolding len_def by (rule norm3_pos[OF nz])
  have sq: "len\<^sup>2 = a0\<^sup>2 + a1\<^sup>2 + a2\<^sup>2"
  proof -
    have "0 \<le> a0 * a0 + a1 * a1 + a2 * a2" by (simp add: add_nonneg_nonneg)
    then show ?thesis by (simp add: len_def norm3_def dot_def power2_eq_square)
  qed
  have u: "unit_dir pt1 pt0 = (Finite (a0 / len), Finite (a1 / len), Finite (a2 / len))"
    using pos by (simp add: unit_dir_def a Let_def np_divide_def len_def)
  have "(a0 / len)\<^sup>2 + (a1 / len)\<^sup>2 + (a2 / len)\<^sup>2 = (a0\<^sup>2 + a1\<^sup>2 + a2\<^sup>2) / len\<^sup>2"
    by (simp add: power_divide add_divide_distrib)
  also have "\<dots> = 1" using pos by (simp add: sq[symmetric])
  finally show ?thesis using u by blast
qed

lemma sgn_product_nonneg: "0 \<le> a * z \<Longrightarrow> 0 \<le> a * sgn (z::real)"
  by (cases "z = 0"; cases "0 < z") (auto simp: zero_le_mult_iff sgn_real_def)

subsection \<open>The starting direction of \<^verbatim>\<open>trace_base\<close>\<close>

text \<open>
  Claim C10, amended. Whenever \<^verbatim>\<open>trace_base\<close> reaches the trace primitive (the model has
  a first gap, \<open>z_dir = z0 # zs\<close>) and the aim point \<^verbatim>\<open>pt1\<close> on the entrance pupil plane
  is not the object point \<^verbatim>\<open>pt0\<close>, the direction handed to \<^verbatim>\<open>rt.trace\<close> is finite
  and of unit length, it is the normalised \<^verbatim>\<open>pt1 - pt0\<close> negated exactly when its z
  component times \<^verbatim>\<open>z_dir[0]\<close> is negative, and its z component times the sign of
  \<^verbatim>\<open>z_dir[0]\<close> is not negative.
\<close>

theorem trace_base_start_direction:
  assumes zd: "z_dir (seq_model om) = z0 # zs"
      and ne: "trace_base_pt1 ex om pupil fld kw \<noteq> obj_coords ex fld"
  shows "\<exists>ux uy uz dx dy dz.
           unit_dir (trace_base_pt1 ex om pupil fld kw) (obj_coords ex fld) = (Finite ux, Finite uy, Finite uz)
         \<and> (dx, dy, dz) = (if uz * z0 < 0 then (- ux, - uy, - uz) else (ux, uy, uz))
         \<and> dx\<^sup>2 + dy\<^sup>2 + dz\<^sup>2 = 1
         \<and> 0 \<le> dz * sgn z0
         \<and> trace_base ex om pupil fld wvl kw =
             (case rt_trace ex (kw\<lparr>kw_apply_vignetting := None\<rparr>) (obj_coords ex fld)
                     (Finite dx, Finite dy, Finite dz) wvl of
                Inl e \<Rightarrow> Inl (Trace e) | Inr pkg \<Rightarrow> Inr pkg)"
proof -
  from unit_dir_finite[OF ne] obtain ux uy uz where
    u: "unit_dir (trace_base_pt1 ex om pupil fld kw) (obj_coords ex fld) = (Finite ux, Finite uy, Finite uz)"
    and n: "ux\<^sup>2 + uy\<^sup>2 + uz\<^sup>2 = 1" by blast
  show ?thesis
  proof (cases "uz * z0 < 0")
    case True
    have d: "trace_base_dir0 ex om pupil fld kw z0 = (Finite (- ux), Finite (- uy), Finite (- uz))"
      using True by (simp add: trace_base_dir0_def Let_def u npvec_negative_def)
    have s: "0 \<le> (- uz) * sgn z0" using True by (intro sgn_product_nonneg) simp
    have t: "trace_base ex om pupil fld wvl kw =
             (case rt_trace ex (kw\<lparr>kw_apply_vignetting := None\<rparr>) (obj_coords ex fld)
                     (Finite (- ux), Finite (- uy), Finite (- uz)) wvl of
                Inl e \<Rightarrow> Inl (Trace e) | Inr pkg \<Rightarrow> Inr pkg)"
      by (simp add: trace_base_def zd d)
    show ?thesis
      apply (rule exI[of _ ux], rule exI[of _ uy], rule exI[of _ uz])
      apply (rule exI[of _ "- ux"], rule exI[of _ "- uy"], rule exI[of _ "- uz"])
      using u n s t True by simp
  next
    case False
    have d: "trace_base_dir0 ex om pupil fld kw z0 = (Finite ux, Finite uy, Finite uz)"
      using False by (simp add: trace_base_dir0_def Let_def u)
    have s: "0 \<le> uz * sgn z0" using False by (intro sgn_product_nonneg) simp
    have t: "trace_base ex om pupil fld wvl kw =
             (case rt_trace ex (kw\<lparr>kw_apply_vignetting := None\<rparr>) (obj_coords ex fld)
                     (Finite ux, Finite uy, Finite uz) wvl of
                Inl e \<Rightarrow> Inl (Trace e) | Inr pkg \<Rightarrow> Inr pkg)"
      by (simp add: trace_base_def zd d)
    show ?thesis
      apply (rule exI[of _ ux], rule exI[of _ uy], rule exI[of _ uz])
      apply (rule exI[of _ ux], rule exI[of _ uy], rule exI[of _ uz])
      using u n s t False by simp
  qed
qed

text \<open>
  Claim C10 as stated fails where \<^verbatim>\<open>pt1 = pt0\<close>: an axial field, the chief ray and an
  entrance pupil in the object plane (\<^verbatim>\<open>enp_dist = - obj_dist\<close>). The length is 0, numpy
  divides 0 by 0 and the primitive is handed a vector of nan, which has no length 1.
\<close>

theorem trace_base_nan_direction:
  "trace_base_pt1 (demo_externals demo_trace_ok) (demo_model 100 (- 100)) (0, 0) (demo_field 0 0) no_kwargs
     = obj_coords (demo_externals demo_trace_ok) (demo_field 0 0)
   \<and> trace_base_dir0 (demo_externals demo_trace_ok) (demo_model 100 (- 100)) (0, 0) (demo_field 0 0) no_kwargs 1
     = (NaN, NaN, NaN)"
  by (simp add: trace_base_dir0_def trace_base_pt1_def demo_externals_def demo_model_def
      demo_field_def no_kwargs_def unit_dir_def vsub_def norm3_def dot_def np_divide_def Let_def)

text \<open>
  The hypotheses of \<open>trace_base_start_direction\<close> hold for a virtual object
  (\<^verbatim>\<open>obj_dist = -100\<close>) and the upper rim ray.
\<close>

theorem trace_base_start_direction_witness:
  "\<exists>ux uy uz dx dy dz.
           unit_dir (trace_base_pt1 (demo_externals demo_trace_ok) (demo_model (- 100) 50) (0, 1) (demo_field 0 0) no_kwargs)
              (obj_coords (demo_externals demo_trace_ok) (demo_field 0 0)) = (Finite ux, Finite uy, Finite uz)
         \<and> (dx, dy, dz) = (if uz * 1 < 0 then (- ux, - uy, - uz) else (ux, uy, uz))
         \<and> dx\<^sup>2 + dy\<^sup>2 + dz\<^sup>2 = 1
         \<and> 0 \<le> dz * sgn (1::real)
         \<and> trace_base (demo_externals demo_trace_ok) (demo_model (- 100) 50) (0, 1) (demo_field 0 0) 550 no_kwargs =
             (case rt_trace (demo_externals demo_trace_ok) (no_kwargs\<lparr>kw_apply_vignetting := None\<rparr>)
                     (obj_coords (demo_externals demo_trace_ok) (demo_field 0 0))
                     (Finite dx, Finite dy, Finite dz) 550 of
                Inl e \<Rightarrow> Inl (Trace e) | Inr pkg \<Rightarrow> Inr pkg)"
proof -
  have zd: "z_dir (seq_model (demo_model (- 100) 50)) = 1 # [1]"
    by (simp add: demo_model_def demo_seq_model_def)
  have ne: "trace_base_pt1 (demo_externals demo_trace_ok) (demo_model (- 100) 50) (0, 1) (demo_field 0 0) no_kwargs
            \<noteq> obj_coords (demo_externals demo_trace_ok) (demo_field 0 0)"
    by (simp add: trace_base_pt1_def demo_externals_def demo_model_def demo_field_def no_kwargs_def Let_def)
  show ?thesis by (rule trace_base_start_direction[OF zd ne])
qed

subsection \<open>The re-raise rule of the 1D aiming residual\<close>

lemma y_residual_of_pkg_no_trace_error: "y_residual_of_pkg pkg ifcx y_target \<noteq> Inl (Trace e)"
  by (cases pkg) (auto simp: y_residual_of_pkg_def py_index_def split: prod.splits)

lemma y_stop_coordinate_missed:
  assumes "rt_trace ex no_kwargs pt0 (unit_dir (0, y1, dist0) pt0) wvl = Inl (TraceMissedSurfaceError surf pkg)"
  shows "y_stop_coordinate ex y1 ifcx pt0 dist0 wvl y_target =
           (if surf \<le> ifcx then Inl (Trace (TraceMissedSurfaceError surf pkg))
            else y_residual_of_pkg pkg ifcx y_target)"
  using assms by (simp add: y_stop_coordinate_def Let_def)

lemma y_stop_coordinate_tir:
  assumes "rt_trace ex no_kwargs pt0 (unit_dir (0, y1, dist0) pt0) wvl = Inl (TraceTIRError surf pkg)"
  shows "y_stop_coordinate ex y1 ifcx pt0 dist0 wvl y_target =
           (if surf < ifcx then Inl (Trace (TraceTIRError surf pkg))
            else y_residual_of_pkg pkg ifcx y_target)"
  using assms by (simp add: y_stop_coordinate_def Let_def)

text \<open>
  Claim C1, amended. When the trace of a residual evaluation raises a trace error \<open>e\<close>:
  a \<^verbatim>\<open>TraceMissedSurfaceError\<close> is re-raised exactly when its surface index is at or
  before the target interface (\<^verbatim>\<open>surf <= ifcx\<close>), a \<^verbatim>\<open>TraceTIRError\<close> exactly when
  its surface index is before the target (\<^verbatim>\<open>surf < ifcx\<close>), any other trace error
  always; and no trace error other than \<open>e\<close> leaves the evaluation. So a failure beyond
  the target is not re-raised.
\<close>

theorem y_stop_coordinate_reraise_rule:
  assumes "rt_trace ex no_kwargs pt0 (unit_dir (0, y1, dist0) pt0) wvl = Inl e"
  shows "(case e of
            TraceMissedSurfaceError surf pkg \<Rightarrow>
              (y_stop_coordinate ex y1 ifcx pt0 dist0 wvl y_target = Inl (Trace e)) = (surf \<le> ifcx)
          | TraceTIRError surf pkg \<Rightarrow>
              (y_stop_coordinate ex y1 ifcx pt0 dist0 wvl y_target = Inl (Trace e)) = (surf < ifcx)
          | TraceError pkg \<Rightarrow> y_stop_coordinate ex y1 ifcx pt0 dist0 wvl y_target = Inl (Trace e))
       \<and> (\<forall>e'. y_stop_coordinate ex y1 ifcx pt0 dist0 wvl y_target = Inl (Trace e') \<longrightarrow> e' = e)"
proof (cases e)
  case (TraceMissedSurfaceError surf pkg)
  have r: "y_stop_coordinate ex y1 ifcx pt0 dist0 wvl y_target =
           (if surf \<le> ifcx then Inl (Trace e) else y_residual_of_pkg pkg ifcx y_target)"
    using y_stop_coordinate_missed[OF assms[unfolded TraceMissedSurfaceError]]
    by (simp only: TraceMissedSurfaceError)
  show ?thesis
  proof (cases "surf \<le> ifcx")
    case True
    then show ?thesis by (simp add: r TraceMissedSurfaceError)
  next
    case False
    then show ?thesis
      by (simp add: r TraceMissedSurfaceError y_residual_of_pkg_no_trace_error)
  qed
next
  case (TraceTIRError surf pkg)
  have r: "y_stop_coordinate ex y1 ifcx pt0 dist0 wvl y_target =
           (if surf < ifcx then Inl (Trace e) else y_residual_of_pkg pkg ifcx y_target)"
    using y_stop_coordinate_tir[OF assms[unfolded TraceTIRError]]
    by (simp only: TraceTIRError)
  show ?thesis
  proof (cases "surf < ifcx")
    case True
    then show ?thesis by (simp add: r TraceTIRError)
  next
    case False
    then show ?thesis
      by (simp add: r TraceTIRError y_residual_of_pkg_no_trace_error)
  qed
next
  case (TraceError pkg)
  have "y_stop_coordinate ex y1 ifcx pt0 dist0 wvl y_target = Inl (Trace e)"
    using assms by (simp add: y_stop_coordinate_def Let_def TraceError)
  then show ?thesis by (simp add: TraceError)
qed

text \<open>
  Claim C1 as stated fails: a ray that misses surface 1, before the target interface 3,
  is re-raised, where the claim has the partial ray used and the iteration continued.
\<close>

theorem y_stop_coordinate_reraise_before_target:
  "y_stop_coordinate (demo_externals (demo_trace_miss 1)) 0 3 (0, 0, 0) 100 550 0
     = Inl (Trace (TraceMissedSurfaceError 1 demo_partial_pkg))"
  by (simp add: y_stop_coordinate_def demo_externals_def demo_trace_miss_def Let_def)

text \<open>The hypothesis of \<open>y_stop_coordinate_reraise_rule\<close> holds for a miss at the target.\<close>

theorem y_stop_coordinate_reraise_rule_witness:
  "y_stop_coordinate (demo_externals (demo_trace_miss 2)) 0 2 (0, 0, 0) 100 550 0
     = Inl (Trace (TraceMissedSurfaceError 2 demo_partial_pkg))"
proof -
  have h: "rt_trace (demo_externals (demo_trace_miss 2)) no_kwargs (0, 0, 0) (unit_dir (0, 0, 100) (0, 0, 0)) 550
             = Inl (TraceMissedSurfaceError 2 demo_partial_pkg)"
    by (simp add: demo_externals_def demo_trace_miss_def)
  from y_stop_coordinate_reraise_rule[OF h, of 2 0]
  have "(y_stop_coordinate (demo_externals (demo_trace_miss 2)) 0 2 (0, 0, 0) 100 550 0
           = Inl (Trace (TraceMissedSurfaceError 2 demo_partial_pkg))) = ((2::nat) \<le> 2)"
    unfolding trace_error.case by (rule conjunct1)
  then show ?thesis by simp
qed

text \<open>
  Claim C3, amended. A \<^verbatim>\<open>TraceMissedSurfaceError\<close> exactly at the target interface is
  re-raised, a \<^verbatim>\<open>TraceTIRError\<close> exactly at the target is not (no trace error leaves the
  evaluation); either error one surface before the target is re-raised; either error one
  surface after the target is not re-raised.
\<close>

theorem y_stop_coordinate_reraise_at_neighbours:
  "(rt_trace ex no_kwargs pt0 (unit_dir (0, y1, dist0) pt0) wvl = Inl (TraceMissedSurfaceError surf pkg) \<longrightarrow>
      (surf = ifcx \<longrightarrow>
         y_stop_coordinate ex y1 ifcx pt0 dist0 wvl y_target = Inl (Trace (TraceMissedSurfaceError surf pkg)))
    \<and> (Suc surf = ifcx \<longrightarrow>
         y_stop_coordinate ex y1 ifcx pt0 dist0 wvl y_target = Inl (Trace (TraceMissedSurfaceError surf pkg)))
    \<and> (surf = Suc ifcx \<longrightarrow>
         (\<forall>e'. y_stop_coordinate ex y1 ifcx pt0 dist0 wvl y_target \<noteq> Inl (Trace e'))))
   \<and> (rt_trace ex no_kwargs pt0 (unit_dir (0, y1, dist0) pt0) wvl = Inl (TraceTIRError surf pkg) \<longrightarrow>
      (surf = ifcx \<longrightarrow>
         (\<forall>e'. y_stop_coordinate ex y1 ifcx pt0 dist0 wvl y_target \<noteq> Inl (Trace e')))
    \<and> (Suc surf = ifcx \<longrightarrow>
         y_stop_coordinate ex y1 ifcx pt0 dist0 wvl y_target = Inl (Trace (TraceTIRError surf pkg)))
    \<and> (surf = Suc ifcx \<longrightarrow>
         (\<forall>e'. y_stop_coordinate ex y1 ifcx pt0 dist0 wvl y_target \<noteq> Inl (Trace e'))))"
proof (intro conjI impI)
  assume m: "rt_trace ex no_kwargs pt0 (unit_dir (0, y1, dist0) pt0) wvl = Inl (TraceMissedSurfaceError surf pkg)"
  note r = y_stop_coordinate_missed[OF m, of ifcx y_target]
  { assume "surf = ifcx"
    then show "y_stop_coordinate ex y1 ifcx pt0 dist0 wvl y_target = Inl (Trace (TraceMissedSurfaceError surf pkg))"
      by (simp add: r) }
  { assume "Suc surf = ifcx"
    then have "surf \<le> ifcx" by simp
    then show "y_stop_coordinate ex y1 ifcx pt0 dist0 wvl y_target = Inl (Trace (TraceMissedSurfaceError surf pkg))"
      by (simp add: r) }
  { assume "surf = Suc ifcx"
    then have "\<not> surf \<le> ifcx" by simp
    then show "\<forall>e'. y_stop_coordinate ex y1 ifcx pt0 dist0 wvl y_target \<noteq> Inl (Trace e')"
      by (simp add: r y_residual_of_pkg_no_trace_error) }
next
  assume t: "rt_trace ex no_kwargs pt0 (unit_dir (0, y1, dist0) pt0) wvl = Inl (TraceTIRError surf pkg)"
  note r = y_stop_coordinate_tir[OF t, of ifcx y_target]
  { assume "surf = ifcx"
    then have "\<not> surf < ifcx" by simp
    then show "\<forall>e'. y_stop_coordinate ex y1 ifcx pt0 dist0 wvl y_target \<noteq> Inl (Trace e')"
      by (simp add: r y_residual_of_pkg_no_trace_error) }
  { assume "Suc surf = ifcx"
    then have "surf < ifcx" by simp
    then show "y_stop_coordinate ex y1 ifcx pt0 dist0 wvl y_target = Inl (Trace (TraceTIRError surf pkg))"
      by (simp add: r) }
  { assume "surf = Suc ifcx"
    then have "\<not> surf < ifcx" by simp
    then show "\<forall>e'. y_stop_coordinate ex y1 ifcx pt0 dist0 wvl y_target \<noteq> Inl (Trace e')"
      by (simp add: r y_residual_of_pkg_no_trace_error) }
qed

text \<open>
  Claim C3 as stated fails for total internal reflection exactly at the target interface
  (\<^verbatim>\<open>surf = ifcx = 2\<close>): the guard is \<^verbatim>\<open>ray_tir.surf < ifcx\<close> and the error is not
  re-raised.
\<close>

theorem y_stop_coordinate_tir_at_target_not_reraised:
  "y_stop_coordinate (demo_externals (demo_trace_tir 2)) 0 2 (0, 0, 0) 100 550 0
     \<noteq> Inl (Trace (TraceTIRError 2 demo_partial_pkg))"
  by (simp add: y_stop_coordinate_def demo_externals_def demo_trace_tir_def Let_def
      y_residual_of_pkg_def demo_partial_pkg_def)

text \<open>
  \<open>y_stop_coordinate_reraise_at_neighbours\<close> at a total internal reflection one surface
  before the target.
\<close>

theorem y_stop_coordinate_reraise_at_neighbours_witness:
  "y_stop_coordinate (demo_externals (demo_trace_tir 1)) 0 2 (0, 0, 0) 100 550 0
     = Inl (Trace (TraceTIRError 1 demo_partial_pkg))"
proof -
  have h: "rt_trace (demo_externals (demo_trace_tir 1)) no_kwargs (0, 0, 0) (unit_dir (0, 0, 100) (0, 0, 0)) 550
             = Inl (TraceTIRError 1 demo_partial_pkg)"
    by (simp add: demo_externals_def demo_trace_tir_def)
  have s: "Suc 1 = (2::nat)" by simp
  from y_stop_coordinate_reraise_at_neighbours[of "demo_externals (demo_trace_tir 1)" "(0, 0, 0)" 0 100 550 1
      demo_partial_pkg 2 0] h s
  show ?thesis by blast
qed

subsection \<open>The filter table of \<^verbatim>\<open>trace_safe\<close>\<close>

lemma RaySeg_same: "RaySeg rs = rs"
  by (simp add: RaySeg_def)

lemma map_RaySeg_same: "map RaySeg ray = ray"
  by (induction ray) (simp_all add: RaySeg_same)

lemma named_tuples_same: "named_tuples pkg = pkg"
  by (cases pkg) (simp add: named_tuples_def map_RaySeg_same)

lemma trace_safe_on_error:
  assumes "trace_base ex om pupil fld wvl kw = Inl (Trace err)"
  shows "trace_safe ex om pupil fld wvl outf errf kw =
           (case errf of
              RF_None \<Rightarrow> Inr None
            | RF_Str s \<Rightarrow>
                if s = ''full'' then Inr (Some (RayErr (set_ray_pkg err (Some (ray_pkg err)))))
                else if s = ''summary'' then Inr (Some (RayErr (set_ray_pkg err None)))
                else Inr None)"
  using assms by (simp add: trace_safe_def Let_def named_tuples_same split: rayerr_filter.splits)

lemma trace_safe_on_success:
  assumes "trace_base ex om pupil fld wvl kw = Inr pkg"
  shows "trace_safe ex om pupil fld wvl outf errf kw =
           (case outf of
              OF_None \<Rightarrow> Inr (Some (Package pkg))
            | OF_Str s \<Rightarrow>
                if s = ''last'' then
                  (if fst pkg = [] then Inl IndexError
                   else Inr (Some (FinalSeg (last (fst pkg)) (fst (snd pkg)) (snd (snd pkg)))))
                else Inl TypeError
            | OF_Callable f \<Rightarrow> Inr (map_option Filtered (f pkg)))"
  using assms
  by (cases pkg) (simp add: trace_safe_def Let_def named_tuples_same split: output_filter.splits)

lemma trace_safe_on_other_error:
  assumes "trace_base ex om pupil fld wvl kw = Inl e" and "\<not> is_TraceError e"
  shows "trace_safe ex om pupil fld wvl outf errf kw = Inl e"
  using assms by (cases e) (simp_all add: trace_safe_def Let_def)

lemma trace_safe_no_trace_error:
  "trace_safe ex om pupil fld wvl outf errf kw \<noteq> Inl (Trace e)"
proof (cases "trace_base ex om pupil fld wvl kw")
  case (Inl err)
  show ?thesis
  proof (cases "is_TraceError err")
    case True
    then obtain te where "err = Trace te" by (cases err) auto
    with Inl have "trace_base ex om pupil fld wvl kw = Inl (Trace te)" by simp
    from trace_safe_on_error[OF this, of outf errf] show ?thesis
      by (simp split: rayerr_filter.splits)
  next
    case False
    from trace_safe_on_other_error[OF Inl False, of outf errf] False show ?thesis by auto
  qed
next
  case (Inr pkg)
  from trace_safe_on_success[OF Inr, of outf errf] show ?thesis
    by (simp split: output_filter.splits)
qed

text \<open>
  Claim C2. No trace error leaves \<^verbatim>\<open>trace_safe\<close>. When the base trace raises the trace
  error \<open>err\<close>, then for every output filter: \<^verbatim>\<open>rayerr_filter=None\<close> returns
  \<^verbatim>\<open>None\<close>, \<^verbatim>\<open>'summary'\<close> returns the error with \<^verbatim>\<open>ray_pkg\<close> set to \<^verbatim>\<open>None\<close>,
  \<^verbatim>\<open>'full'\<close> returns the error with its partial ray package. When the base trace returns
  the package \<open>(ray, op_delta, w)\<close>, then for every error filter:
  \<^verbatim>\<open>output_filter=None\<close> returns the package, \<^verbatim>\<open>'last'\<close> returns the final segment
  with the optical path and the wavelength (a package without segments has no final
  segment: \<^verbatim>\<open>ray[-1]\<close> raises \<^verbatim>\<open>IndexError\<close>), and a callable returns its value on the
  package.
\<close>

theorem trace_safe_filter_table:
  "(\<forall>e. trace_safe ex om pupil fld wvl outf errf kw \<noteq> Inl (Trace e))
   \<and> (trace_base ex om pupil fld wvl kw = Inl (Trace err) \<longrightarrow>
        trace_safe ex om pupil fld wvl outf RF_None kw = Inr None
      \<and> trace_safe ex om pupil fld wvl outf (RF_Str ''summary'') kw
          = Inr (Some (RayErr (set_ray_pkg err None)))
      \<and> trace_safe ex om pupil fld wvl outf (RF_Str ''full'') kw
          = Inr (Some (RayErr (set_ray_pkg err (Some (ray_pkg err))))))
   \<and> (trace_base ex om pupil fld wvl kw = Inr (ray, op_delta, w) \<longrightarrow>
        trace_safe ex om pupil fld wvl OF_None errf kw = Inr (Some (Package (ray, op_delta, w)))
      \<and> trace_safe ex om pupil fld wvl (OF_Str ''last'') errf kw
          = (if ray = [] then Inl IndexError else Inr (Some (FinalSeg (last ray) op_delta w)))
      \<and> trace_safe ex om pupil fld wvl (OF_Callable f) errf kw
          = Inr (map_option Filtered (f (ray, op_delta, w))))"
proof (intro conjI allI impI)
  fix e
  show "trace_safe ex om pupil fld wvl outf errf kw \<noteq> Inl (Trace e)"
    by (rule trace_safe_no_trace_error)
next
  assume h: "trace_base ex om pupil fld wvl kw = Inl (Trace err)"
  show "trace_safe ex om pupil fld wvl outf RF_None kw = Inr None"
    by (simp add: trace_safe_on_error[OF h])
  show "trace_safe ex om pupil fld wvl outf (RF_Str ''summary'') kw
          = Inr (Some (RayErr (set_ray_pkg err None)))"
    by (simp add: trace_safe_on_error[OF h])
  show "trace_safe ex om pupil fld wvl outf (RF_Str ''full'') kw
          = Inr (Some (RayErr (set_ray_pkg err (Some (ray_pkg err)))))"
    by (simp add: trace_safe_on_error[OF h])
next
  assume h: "trace_base ex om pupil fld wvl kw = Inr (ray, op_delta, w)"
  show "trace_safe ex om pupil fld wvl OF_None errf kw = Inr (Some (Package (ray, op_delta, w)))"
    by (simp add: trace_safe_on_success[OF h])
  show "trace_safe ex om pupil fld wvl (OF_Str ''last'') errf kw
          = (if ray = [] then Inl IndexError else Inr (Some (FinalSeg (last ray) op_delta w)))"
    by (simp add: trace_safe_on_success[OF h])
  show "trace_safe ex om pupil fld wvl (OF_Callable f) errf kw
          = Inr (map_option Filtered (f (ray, op_delta, w)))"
    by (simp add: trace_safe_on_success[OF h])
qed

text \<open>The sample primitives under \<^verbatim>\<open>trace_base\<close>.\<close>

lemma demo_trace_base_miss:
  "trace_base (demo_externals (demo_trace_miss n)) (demo_model od ed) pupil fld wvl kw
     = Inl (Trace (TraceMissedSurfaceError n demo_partial_pkg))"
  by (simp add: trace_base_def demo_externals_def demo_model_def demo_seq_model_def demo_trace_miss_def)

lemma demo_trace_base_ok:
  "trace_base (demo_externals demo_trace_ok) (demo_model od ed) pupil (demo_field fx fy) wvl kw
     = Inr ([\<lparr>inc_pt = (fx, fy, 0), after_dir = (0, 0, 1), after_dst = 1, normal = (0, 0, 1)\<rparr>], 0, wvl)"
  by (simp add: trace_base_def demo_externals_def demo_model_def demo_seq_model_def demo_trace_ok_def
      demo_field_def)

text \<open>
  \<open>trace_safe_filter_table\<close> at a trace that misses surface 3 (error filter
  \<^verbatim>\<open>'summary'\<close>) and at a trace that succeeds (output filter \<^verbatim>\<open>'last'\<close>).
\<close>

theorem trace_safe_filter_table_witness:
  "trace_safe (demo_externals (demo_trace_miss 3)) (demo_model 100 (- 50)) (0, 1) (demo_field 0 0) 550
       (OF_None :: unit output_filter) (RF_Str ''summary'') no_kwargs
     = Inr (Some (RayErr (TraceMissedSurfaceError 3 None)))
   \<and> trace_safe (demo_externals demo_trace_ok) (demo_model 100 (- 50)) (0, 1) (demo_field 0 0) 550
       (OF_Str ''last'' :: unit output_filter) RF_None no_kwargs
     = Inr (Some (FinalSeg \<lparr>inc_pt = (0, 0, 0), after_dir = (0, 0, 1), after_dst = 1, normal = (0, 0, 1)\<rparr> 0 550))"
proof -
  note t1 = trace_safe_filter_table[of "demo_externals (demo_trace_miss 3)" "demo_model 100 (- 50)" "(0, 1)"
      "demo_field 0 0" 550 "OF_None :: unit output_filter" RF_None no_kwargs
      "TraceMissedSurfaceError 3 demo_partial_pkg"]
  have a: "trace_safe (demo_externals (demo_trace_miss 3)) (demo_model 100 (- 50)) (0, 1) (demo_field 0 0) 550
       (OF_None :: unit output_filter) (RF_Str ''summary'') no_kwargs
     = Inr (Some (RayErr (set_ray_pkg (TraceMissedSurfaceError 3 demo_partial_pkg) None)))"
    using t1 demo_trace_base_miss[of 3 100 "- 50" "(0, 1)" "demo_field 0 0" 550 no_kwargs] by blast
  note t2 = trace_safe_filter_table[of "demo_externals demo_trace_ok" "demo_model 100 (- 50)" "(0, 1)"
      "demo_field 0 0" 550 "OF_None :: unit output_filter" RF_None no_kwargs _
      "[\<lparr>inc_pt = (0, 0, 0), after_dir = (0, 0, 1), after_dst = 1, normal = (0, 0, 1)\<rparr>]" 0 550]
  have b: "trace_safe (demo_externals demo_trace_ok) (demo_model 100 (- 50)) (0, 1) (demo_field 0 0) 550
       (OF_Str ''last'' :: unit output_filter) RF_None no_kwargs
     = (if [\<lparr>inc_pt = (0, 0, 0), after_dir = (0, 0, 1), after_dst = 1, normal = (0, 0, 1)\<rparr>] = [] then Inl IndexError
        else Inr (Some (FinalSeg (last [\<lparr>inc_pt = (0, 0, 0), after_dir = (0, 0, 1), after_dst = 1, normal = (0, 0, 1)\<rparr>]) 0 550)))"
    using t2 demo_trace_base_ok[of 100 "- 50" "(0, 1)" 0 0 550 no_kwargs] by blast
  show ?thesis using a b by simp
qed

subsection \<open>The line intersection primitive\<close>

lemma dot_self_pos: "a \<noteq> (0, 0, 0) \<Longrightarrow> 0 < dot a a"
proof -
  assume h: "a \<noteq> (0, 0, 0)"
  obtain a0 a1 a2 where a: "a = (a0, a1, a2)" by (cases a) auto
  from h a have "a0 \<noteq> 0 \<or> a1 \<noteq> 0 \<or> a2 \<noteq> 0" by simp
  then have "0 < a0 * a0 + a1 * a1 + a2 * a2"
    by (metis add_pos_nonneg add_nonneg_pos not_real_square_gt_zero zero_le_square add_nonneg_nonneg)
  then show ?thesis by (simp add: dot_def a)
qed

lemma common_point_numerator:
  assumes "vadd_scaled P1 s V1 = vadd_scaled P2 t V2"
  shows "dot (cross (vsub P2 P1) V1) (cross V1 V2) = t * dot (cross V1 V2) (cross V1 V2)"
proof -
  obtain p0 p1 p2 where P1: "P1 = (p0, p1, p2)" by (cases P1) auto
  obtain q0 q1 q2 where P2: "P2 = (q0, q1, q2)" by (cases P2) auto
  obtain a0 a1 a2 where V1: "V1 = (a0, a1, a2)" by (cases V1) auto
  obtain b0 b1 b2 where V2: "V2 = (b0, b1, b2)" by (cases V2) auto
  from assms have e0: "q0 - p0 = s * a0 - t * b0" and e1: "q1 - p1 = s * a1 - t * b1"
    and e2: "q2 - p2 = s * a2 - t * b2"
    by (simp_all add: vadd_scaled_def P1 P2 V1 V2 algebra_simps)
  show ?thesis
    unfolding P1 P2 V1 V2 vsub_def cross_def dot_def prod.case e0 e1 e2
    by (simp add: algebra_simps)
qed

text \<open>
  Claim C7, amended. For directions that are not parallel (\<open>V1 \<times> V2 \<noteq> 0\<close>)
  \<^verbatim>\<open>intersect_2_lines\<close> returns \<open>((P2 - P1) \<times> V1) \<sqdot> (V1 \<times> V2) / |V1 \<times> V2|\<^sup>2\<close>. For
  parallel directions (\<open>V1 \<times> V2 = 0\<close>) no error is raised: the quotient is 0 / 0 and the
  function returns numpy's nan.
\<close>

theorem intersect_2_lines_value:
  "(cross V1 V2 \<noteq> (0, 0, 0) \<longrightarrow>
      intersect_2_lines P1 V1 P2 V2 =
        Inr (Finite (dot (cross (vsub P2 P1) V1) (cross V1 V2) / (norm3 (cross V1 V2))\<^sup>2)))
   \<and> (cross V1 V2 = (0, 0, 0) \<longrightarrow> intersect_2_lines P1 V1 P2 V2 = Inr NaN)"
proof (intro conjI impI)
  assume nz: "cross V1 V2 \<noteq> (0, 0, 0)"
  have pos: "0 < dot (cross V1 V2) (cross V1 V2)" by (rule dot_self_pos[OF nz])
  have n2: "(norm3 (cross V1 V2))\<^sup>2 = dot (cross V1 V2) (cross V1 V2)"
    using pos by (simp add: norm3_def)
  show "intersect_2_lines P1 V1 P2 V2 =
        Inr (Finite (dot (cross (vsub P2 P1) V1) (cross V1 V2) / (norm3 (cross V1 V2))\<^sup>2))"
    using pos by (simp add: intersect_2_lines_def Let_def np_divide_def n2)
next
  assume z: "cross V1 V2 = (0, 0, 0)"
  obtain c0 c1 c2 where c: "cross (vsub P2 P1) V1 = (c0, c1, c2)"
    by (cases "cross (vsub P2 P1) V1") auto
  show "intersect_2_lines P1 V1 P2 V2 = Inr NaN"
    by (simp add: intersect_2_lines_def Let_def z c dot_def np_divide_def)
qed

text \<open>
  Claim C7 as stated fails for two parallel lines along the z axis: the call returns nan,
  it signals no error.
\<close>

theorem intersect_2_lines_parallel_nan:
  "intersect_2_lines (0, 0, 0) (0, 0, 1) (1, 0, 0) (0, 0, 1) = Inr NaN"
  by (simp add: intersect_2_lines_def Let_def cross_def vsub_def dot_def np_divide_def)

text \<open>
  \<open>intersect_2_lines_value\<close> at the x axis and the line through \<open>(2, -3, 0)\<close> along y,
  where the formula gives 3, and at the x axis and a parallel line through \<open>(0, 1, 0)\<close>.
\<close>

theorem intersect_2_lines_value_witness:
  "intersect_2_lines (0, 0, 0) (1, 0, 0) (2, - 3, 0) (0, 1, 0) = Inr (Finite 3)
   \<and> intersect_2_lines (0, 0, 0) (1, 0, 0) (0, 1, 0) (2, 0, 0) = Inr NaN"
proof (rule conjI)
  have nz: "cross (1, 0, 0) (0, 1, 0) \<noteq> ((0, 0, 0) :: vec3)" by (simp add: cross_def)
  from intersect_2_lines_value[of "(1, 0, 0)" "(0, 1, 0)" "(0, 0, 0)" "(2, - 3, 0)",
      THEN conjunct1, THEN mp, OF nz]
  show "intersect_2_lines (0, 0, 0) (1, 0, 0) (2, - 3, 0) (0, 1, 0) = Inr (Finite 3)"
    by (simp add: cross_def vsub_def dot_def norm3_def)
next
  have z: "cross (1, 0, 0) (2, 0, 0) = ((0, 0, 0) :: vec3)" by (simp add: cross_def)
  from intersect_2_lines_value[of "(1, 0, 0)" "(2, 0, 0)" "(0, 0, 0)" "(0, 1, 0)",
      THEN conjunct2, THEN mp, OF z]
  show "intersect_2_lines (0, 0, 0) (1, 0, 0) (0, 1, 0) (2, 0, 0) = Inr NaN" .
qed

text \<open>
  For two lines through a common point \<open>P1 + s V1 = P2 + t V2\<close> with directions that are
  not parallel, the value of the formula is \<open>t\<close>.
\<close>

lemma intersect_2_lines_common_point:
  assumes "cross V1 V2 \<noteq> (0, 0, 0)" and "vadd_scaled P1 s V1 = vadd_scaled P2 t V2"
  shows "intersect_2_lines P1 V1 P2 V2 = Inr (Finite t)"
proof -
  have pos: "0 < dot (cross V1 V2) (cross V1 V2)" by (rule dot_self_pos[OF assms(1)])
  then show ?thesis
    by (simp add: intersect_2_lines_def Let_def np_divide_def common_point_numerator[OF assms(2)])
qed

subsection \<open>The batch engines under a failing sample\<close>



















lemma sqrt_2_pos: "sqrt 2 \<noteq> 0"
  by simp





subsection \<open>The chief ray cache and the field\<close>

lemma get_chief_ray_pkg_field: "snd (get_chief_ray_pkg ex om fld wvl foc) = fld"
  by (simp add: get_chief_ray_pkg_def split: option.splits sum.splits)

lemma setup_pupil_coords_field: "snd (setup_pupil_coords ex om fld wvl foc image_pt) = fld"
proof -
  obtain r f where g: "get_chief_ray_pkg ex om fld wvl foc = (r, f)"
    by (cases "get_chief_ray_pkg ex om fld wvl foc") auto
  with get_chief_ray_pkg_field[of ex om fld wvl foc] have "f = fld" by simp
  with g show ?thesis by (cases r) (simp_all add: setup_pupil_coords_def Let_def)
qed

text \<open>
  Claim C4, amended. \<^verbatim>\<open>get_chief_ray_pkg\<close> returns the field's cached chief ray package
  when one is present and its wavelength equals the requested one. When the cache is empty
  it runs the aiming iteration at the stop surface with the target \<open>(0, 0)\<close> (dropping its
  value) and traces the chief ray; when the cached wavelength differs it traces the chief
  ray again. The result never depends on the focus argument, and in every case the field is
  returned as it was: nothing is cached on it.
\<close>

theorem get_chief_ray_pkg_cases:
  "(chief_ray fld = Some cr \<and> snd (snd (fst cr)) = wvl \<longrightarrow>
      get_chief_ray_pkg ex om fld wvl foc = (Inr cr, fld))
   \<and> (chief_ray fld = None \<longrightarrow>
      get_chief_ray_pkg ex om fld wvl foc =
        ((case iterate_ray ex om (stop_surface (seq_model om)) (0, 0) fld wvl of
            Inl e \<Rightarrow> Inl e
          | Inr aim \<Rightarrow> trace_chief_ray ex om fld wvl foc), fld))
   \<and> (chief_ray fld = Some cr \<and> snd (snd (fst cr)) \<noteq> wvl \<longrightarrow>
      get_chief_ray_pkg ex om fld wvl foc = (trace_chief_ray ex om fld wvl foc, fld))
   \<and> get_chief_ray_pkg ex om fld wvl foc = get_chief_ray_pkg ex om fld wvl foc'
   \<and> snd (get_chief_ray_pkg ex om fld wvl foc) = fld"
proof (intro conjI impI)
  assume "chief_ray fld = Some cr \<and> snd (snd (fst cr)) = wvl"
  then show "get_chief_ray_pkg ex om fld wvl foc = (Inr cr, fld)"
    by (simp add: get_chief_ray_pkg_def)
next
  assume "chief_ray fld = None"
  then show "get_chief_ray_pkg ex om fld wvl foc =
        ((case iterate_ray ex om (stop_surface (seq_model om)) (0, 0) fld wvl of
            Inl e \<Rightarrow> Inl e
          | Inr aim \<Rightarrow> trace_chief_ray ex om fld wvl foc), fld)"
    by (simp add: get_chief_ray_pkg_def aim_chief_ray_def Let_def split: sum.splits)
next
  assume "chief_ray fld = Some cr \<and> snd (snd (fst cr)) \<noteq> wvl"
  then show "get_chief_ray_pkg ex om fld wvl foc = (trace_chief_ray ex om fld wvl foc, fld)"
    by (simp add: get_chief_ray_pkg_def)
next
  show "get_chief_ray_pkg ex om fld wvl foc = get_chief_ray_pkg ex om fld wvl foc'"
    unfolding get_chief_ray_pkg_def trace_chief_ray_def by (rule refl)
next
  show "snd (get_chief_ray_pkg ex om fld wvl foc) = fld"
    by (rule get_chief_ray_pkg_field)
qed

text \<open>The chief ray of the sample model under the primitive that traces through.\<close>

lemma demo_iterate_ray_through:
  "iterate_ray (demo_externals demo_trace_through) (demo_model 100 (- 50)) (Some (Suc 0)) (0, 0) (demo_field 0 0) 550
     = Inr (0, 0)"
  by (simp add: iterate_ray_def y_stop_coordinate_def y_residual_def py_index_def demo_externals_def
      demo_model_def demo_field_def demo_trace_through_def demo_through_ray_def Let_def)

lemma demo_trace_chief_ray_through:
  "trace_chief_ray (demo_externals demo_trace_through) (demo_model 100 (- 50)) (demo_field 0 0) 550 foc
     = Inr ((demo_through_ray (0, 0, 0), 0, 550), ((0, 0, 0), (0, 0, 1), 0))"
  by (simp add: trace_chief_ray_def trace_base_def py_index_m2_def demo_externals_def demo_model_def
      demo_seq_model_def demo_field_def demo_trace_through_def demo_through_ray_def Let_def)

lemma demo_get_chief_ray_pkg_through:
  "get_chief_ray_pkg (demo_externals demo_trace_through) (demo_model 100 (- 50)) (demo_field 0 0) 550 foc
     = (Inr ((demo_through_ray (0, 0, 0), 0, 550), ((0, 0, 0), (0, 0, 1), 0)), demo_field 0 0)"
proof -
  have s: "stop_surface (seq_model (demo_model 100 (- 50))) = Some (Suc 0)"
    by (simp add: demo_model_def demo_seq_model_def)
  have c: "chief_ray (demo_field 0 0 :: unit field) = None" by (simp add: demo_field_def)
  show ?thesis
    by (simp add: get_chief_ray_pkg_def c aim_chief_ray_def Let_def s demo_iterate_ray_through
        demo_trace_chief_ray_through)
qed

text \<open>
  Claim C4 as stated fails at an empty cache: the chief ray package is computed and
  returned, and the field's \<^verbatim>\<open>chief_ray\<close> is still \<^verbatim>\<open>None\<close> after the call.
\<close>

theorem get_chief_ray_pkg_does_not_cache:
  "fst (get_chief_ray_pkg (demo_externals demo_trace_through) (demo_model 100 (- 50)) (demo_field 0 0) 550 None)
     = Inr ((demo_through_ray (0, 0, 0), 0, 550), ((0, 0, 0), (0, 0, 1), 0))
   \<and> chief_ray (snd (get_chief_ray_pkg (demo_externals demo_trace_through) (demo_model 100 (- 50))
                      (demo_field 0 0) 550 None)) = None"
  by (simp add: demo_get_chief_ray_pkg_through) (simp add: demo_field_def)

text \<open>\<open>get_chief_ray_pkg_cases\<close> at the axial sample field, whose cache is empty.\<close>

theorem get_chief_ray_pkg_cases_witness:
  "get_chief_ray_pkg (demo_externals demo_trace_through) (demo_model 100 (- 50)) (demo_field 0 0) 550 None
     = ((case iterate_ray (demo_externals demo_trace_through) (demo_model 100 (- 50))
               (stop_surface (seq_model (demo_model 100 (- 50)))) (0, 0) (demo_field 0 0) 550 of
           Inl e \<Rightarrow> Inl e
         | Inr aim \<Rightarrow> trace_chief_ray (demo_externals demo_trace_through) (demo_model 100 (- 50))
                        (demo_field 0 0) 550 None), demo_field 0 0)"
proof -
  have c: "chief_ray (demo_field 0 0 :: unit field) = None" by (simp add: demo_field_def)
  from get_chief_ray_pkg_cases[of "demo_field 0 0" _ 550 "demo_externals demo_trace_through"
      "demo_model 100 (- 50)" None None] c
  show ?thesis by blast
qed

lemma trace_with_opd_cases:
  assumes g: "get_chief_ray_pkg ex om fld wvl foc = (r, fld)"
  shows "trace_with_opd ex om pupil fld wvl foc kw =
     (case r of
        Inl e \<Rightarrow> (Inl e, fld)
      | Inr crp \<Rightarrow>
          (case trace_base ex om pupil fld wvl kw of
             Inl e \<Rightarrow> (Inl e, fld)
           | Inr pkg \<Rightarrow>
               (Inr (fst pkg, fst (snd pkg), snd (snd pkg),
                     wave_abr_full_calc ex (fod om)
                       (fld\<lparr>chief_ray := Some crp,
                            ref_sphere := Some (calculate_reference_sphere ex om fld wvl foc crp
                              (case kw_image_pt kw of None \<Rightarrow> None | Some (x, y, z) \<Rightarrow> Some (x, y)))\<rparr>)
                       (snd (snd pkg)) foc pkg crp
                       (calculate_reference_sphere ex om fld wvl foc crp
                          (case kw_image_pt kw of None \<Rightarrow> None | Some (x, y, z) \<Rightarrow> Some (x, y)))),
                fld\<lparr>chief_ray := Some crp,
                     ref_sphere := Some (calculate_reference_sphere ex om fld wvl foc crp
                       (case kw_image_pt kw of None \<Rightarrow> None | Some (x, y, z) \<Rightarrow> Some (x, y)))\<rparr>)))"
  by (simp add: trace_with_opd_def g Let_def split: sum.splits prod.splits)

text \<open>
  Claim C9. \<^verbatim>\<open>setup_pupil_coords\<close> leaves the field as it was, on every input. When
  \<^verbatim>\<open>trace_with_opd\<close> returns, the field holds the chief ray package that
  \<^verbatim>\<open>get_chief_ray_pkg\<close> gave and the reference sphere computed from it, and is otherwise
  unchanged; when it raises, the field is as it was.
\<close>

theorem field_effects_of_pupil_setup:
  "snd (setup_pupil_coords ex om fld wvl foc image_pt) = fld
   \<and> (fst (trace_with_opd ex om pupil fld wvl foc kw) = Inr res \<longrightarrow>
        (\<exists>crp. fst (get_chief_ray_pkg ex om fld wvl foc) = Inr crp
           \<and> snd (trace_with_opd ex om pupil fld wvl foc kw)
             = fld\<lparr>chief_ray := Some crp,
                    ref_sphere := Some (calculate_reference_sphere ex om fld wvl foc crp
                      (case kw_image_pt kw of None \<Rightarrow> None | Some (x, y, z) \<Rightarrow> Some (x, y)))\<rparr>))
   \<and> (fst (trace_with_opd ex om pupil fld wvl foc kw) = Inl err \<longrightarrow>
        snd (trace_with_opd ex om pupil fld wvl foc kw) = fld)"
proof -
  obtain r f where g0: "get_chief_ray_pkg ex om fld wvl foc = (r, f)"
    by (cases "get_chief_ray_pkg ex om fld wvl foc") auto
  with get_chief_ray_pkg_field[of ex om fld wvl foc] have g: "get_chief_ray_pkg ex om fld wvl foc = (r, fld)"
    by simp
  note t = trace_with_opd_cases[OF g, of pupil kw]
  show ?thesis
  proof (intro conjI impI)
    show "snd (setup_pupil_coords ex om fld wvl foc image_pt) = fld"
      by (rule setup_pupil_coords_field)
  next
    assume a: "fst (trace_with_opd ex om pupil fld wvl foc kw) = Inr res"
    show "\<exists>crp. fst (get_chief_ray_pkg ex om fld wvl foc) = Inr crp
           \<and> snd (trace_with_opd ex om pupil fld wvl foc kw)
             = fld\<lparr>chief_ray := Some crp,
                    ref_sphere := Some (calculate_reference_sphere ex om fld wvl foc crp
                      (case kw_image_pt kw of None \<Rightarrow> None | Some (x, y, z) \<Rightarrow> Some (x, y)))\<rparr>"
    proof (cases r)
      case (Inl e)
      with a t show ?thesis by simp
    next
      case (Inr crp)
      show ?thesis
      proof (cases "trace_base ex om pupil fld wvl kw")
        case (Inl e)
        with a t Inr show ?thesis by simp
      next
        case (Inr pkg)
        with t \<open>r = Inr crp\<close> g show ?thesis by (intro exI[of _ crp]) simp
      qed
    qed
  next
    assume a: "fst (trace_with_opd ex om pupil fld wvl foc kw) = Inl err"
    show "snd (trace_with_opd ex om pupil fld wvl foc kw) = fld"
    proof (cases r)
      case (Inl e)
      with t show ?thesis by simp
    next
      case (Inr crp)
      show ?thesis
      proof (cases "trace_base ex om pupil fld wvl kw")
        case (Inl e)
        with t Inr show ?thesis by simp
      next
        case (Inr pkg)
        with a t \<open>r = Inr crp\<close> show ?thesis by simp
      qed
    qed
  qed
qed

text \<open>
  \<open>field_effects_of_pupil_setup\<close> at the upper rim ray of the axial sample field, where
  \<^verbatim>\<open>trace_with_opd\<close> returns.
\<close>

theorem field_effects_of_pupil_setup_witness:
  "snd (trace_with_opd (demo_externals demo_trace_through) (demo_model 100 (- 50)) (0, 1) (demo_field 0 0)
          550 None no_kwargs)
     = (demo_field 0 0)\<lparr>chief_ray := Some ((demo_through_ray (0, 0, 0), 0, 550), ((0, 0, 0), (0, 0, 1), 0)),
                         ref_sphere := Some ()\<rparr>"
proof -
  have tb: "trace_base (demo_externals demo_trace_through) (demo_model 100 (- 50)) (0, 1) (demo_field 0 0)
              550 no_kwargs = Inr (demo_through_ray (0, 0, 0), 0, 550)"
    by (simp add: trace_base_def demo_externals_def demo_model_def demo_seq_model_def demo_field_def
        demo_trace_through_def)
  have h: "fst (trace_with_opd (demo_externals demo_trace_through) (demo_model 100 (- 50)) (0, 1)
                  (demo_field 0 0) 550 None no_kwargs)
             = Inr (demo_through_ray (0, 0, 0), 0, 550, 0)"
    by (simp add: trace_with_opd_cases[OF demo_get_chief_ray_pkg_through] tb)
       (simp add: demo_externals_def)
  from field_effects_of_pupil_setup[of "demo_externals demo_trace_through" "demo_model 100 (- 50)"
      "demo_field 0 0" 550 None None "(0, 1)" no_kwargs "(demo_through_ray (0, 0, 0), 0, 550, 0)"] h
  obtain crp where a: "fst (get_chief_ray_pkg (demo_externals demo_trace_through) (demo_model 100 (- 50))
                             (demo_field 0 0) 550 None) = Inr crp"
    and b: "snd (trace_with_opd (demo_externals demo_trace_through) (demo_model 100 (- 50)) (0, 1)
                   (demo_field 0 0) 550 None no_kwargs)
            = (demo_field 0 0)\<lparr>chief_ray := Some crp,
                 ref_sphere := Some (calculate_reference_sphere (demo_externals demo_trace_through)
                    (demo_model 100 (- 50)) (demo_field 0 0) 550 None crp
                    (case kw_image_pt no_kwargs of None \<Rightarrow> None | Some (x, y, z) \<Rightarrow> Some (x, y)))\<rparr>"
    by blast
  from a have "crp = ((demo_through_ray (0, 0, 0), 0, 550), ((0, 0, 0), (0, 0, 1), 0))"
    by (simp add: demo_get_chief_ray_pkg_through)
  with b show ?thesis by simp
qed

subsection \<open>The Coddington recurrence\<close>











lemma demo_coddington_fan:
  "trace_coddington_fan (demo_model 200 0)
     ([demo_cod_seg 200, demo_cod_seg 10, demo_cod_seg 0], 0, 550) None = Inr (90, 90)"
  by (simp add: trace_coddington_fan_def demo_model_def demo_seq_model_def zip_longest5_def
      nth_opt_def py_index_def upt_rec [of 0] upt_rec [of 1] upt_rec [of 2] upt_rec [of 3]
      coddington_step_def demo_cod_seg_def
      cod_cosines_def cod_obl_power_def bind_stop_def quotient_def math_sqrt_def dot_def norm3_def)



end
